theory Spec2Isabelle
  imports Complex_Main "HOL-Library.AList"
begin

section \<open>JavaScript numbers\<close>

text \<open>
  A TypeScript \<open>number\<close> is an IEEE-754 binary64 value. The model keeps the three
  special values apart and carries a finite value as a real:
  \<^item> \<open>NaN\<close>, \<open>-Infinity\<close> and \<open>+Infinity\<close> behave as in ECMAScript (a comparison
    with \<open>NaN\<close> is false, \<open>Infinity - Infinity\<close> and \<open>0 * Infinity\<close> are \<open>NaN\<close>);
  \<^item> arithmetic on finite values is exact: rounding and overflow to infinity are not
    modelled, and neither is the sign of zero (a division by zero takes the zero as
    \<open>+0\<close>; the program only divides by the constants 12 and 52 * 40).
  The comparisons \<open><=\<close> and \<open>>=\<close> are exact in IEEE-754 too, so everything below that
  only compares numbers, or that equates two results of the same expression, does not
  depend on the rounding left out.
\<close>

datatype jsnum = NaN | NegInf | Fin real | PosInf

fun js_neg :: "jsnum \<Rightarrow> jsnum" where
  "js_neg NaN = NaN"
| "js_neg NegInf = PosInf"
| "js_neg PosInf = NegInf"
| "js_neg (Fin a) = Fin (- a)"

fun js_add :: "jsnum \<Rightarrow> jsnum \<Rightarrow> jsnum" where
  "js_add NaN y = NaN"
| "js_add x NaN = NaN"
| "js_add (Fin a) (Fin b) = Fin (a + b)"
| "js_add PosInf NegInf = NaN"
| "js_add NegInf PosInf = NaN"
| "js_add PosInf y = PosInf"
| "js_add NegInf y = NegInf"
| "js_add (Fin a) y = y"

definition js_sub :: "jsnum \<Rightarrow> jsnum \<Rightarrow> jsnum" where
  "js_sub x y = js_add x (js_neg y)"

text \<open>The product of an infinity and a finite factor: the sign rule, and \<open>NaN\<close> at zero.\<close>

definition inf_times :: "jsnum \<Rightarrow> real \<Rightarrow> jsnum" where
  "inf_times i a = (if a = 0 then NaN else if 0 < a then i else js_neg i)"

fun js_mul :: "jsnum \<Rightarrow> jsnum \<Rightarrow> jsnum" where
  "js_mul NaN y = NaN"
| "js_mul x NaN = NaN"
| "js_mul (Fin a) (Fin b) = Fin (a * b)"
| "js_mul (Fin a) y = inf_times y a"
| "js_mul x (Fin b) = inf_times x b"
| "js_mul PosInf y = y"
| "js_mul NegInf y = js_neg y"

fun js_div :: "jsnum \<Rightarrow> jsnum \<Rightarrow> jsnum" where
  "js_div NaN y = NaN"
| "js_div x NaN = NaN"
| "js_div (Fin a) (Fin b) =
     (if b = 0 then (if a = 0 then NaN else if 0 < a then PosInf else NegInf)
      else Fin (a / b))"
| "js_div (Fin a) y = Fin 0"
| "js_div x (Fin b) = (if 0 \<le> b then x else js_neg x)"
| "js_div x y = NaN"

text \<open>\<open>x <= y\<close> of ECMAScript; \<open>x >= y\<close> is \<open>js_le y x\<close>.\<close>

fun js_le :: "jsnum \<Rightarrow> jsnum \<Rightarrow> bool" where
  "js_le NaN y = False"
| "js_le x NaN = False"
| "js_le NegInf y = True"
| "js_le x PosInf = True"
| "js_le (Fin a) (Fin b) = (a \<le> b)"
| "js_le x y = False"

definition js_ge :: "jsnum \<Rightarrow> jsnum \<Rightarrow> bool" where
  "js_ge x y = js_le y x"

text \<open>\<open>x < y\<close> of ECMAScript, used to state properties (the program itself never uses it).\<close>

fun js_lt :: "jsnum \<Rightarrow> jsnum \<Rightarrow> bool" where
  "js_lt NaN y = False"
| "js_lt x NaN = False"
| "js_lt (Fin a) (Fin b) = (a < b)"
| "js_lt PosInf y = False"
| "js_lt x NegInf = False"
| "js_lt x y = True"

section \<open>Role (server/classes/Role.ts)\<close>

text \<open>
  The class keeps eight private fields. The field \<open>id\<close> is written \<open>id_Role\<close>
  (\<open>id\<close> is the identity function of HOL). Identifiers are the serial keys of the
  storage and are kept as integers; dates are kept as milliseconds since the epoch.
\<close>

type_synonym Date = int

record Role =
  id_Role :: int
  title :: string
  description :: string
  department :: string
  level :: int
  minSalary :: jsnum
  maxSalary :: jsnum
  responsibilities :: "string list"

text \<open>
  The constructor assigns each argument to its field and does nothing else. It keeps the
  array it is given (no copy, no check): the record holds the contents of that array.
\<close>

definition new_Role ::
  "int \<Rightarrow> string \<Rightarrow> string \<Rightarrow> string \<Rightarrow> int \<Rightarrow> jsnum \<Rightarrow> jsnum \<Rightarrow> string list \<Rightarrow> Role" where
  "new_Role i t d dep l mn mx rs =
     \<lparr>id_Role = i, title = t, description = d, department = dep, level = l,
      minSalary = mn, maxSalary = mx, responsibilities = rs\<rparr>"

definition getResponsibilities :: "Role \<Rightarrow> string list" where
  "getResponsibilities r = responsibilities r"

text \<open>\<open>return salary >= this.minSalary && salary <= this.maxSalary\<close>\<close>

definition isSalaryInRange :: "Role \<Rightarrow> jsnum \<Rightarrow> bool" where
  "isSalaryInRange r salary = (js_ge salary (minSalary r) \<and> js_le salary (maxSalary r))"

text \<open>
  \<open>Array.prototype.includes\<close> and \<open>indexOf\<close> compare strings by their contents.
  \<open>indexOf\<close> returns the first index holding the element, or -1.
\<close>

definition includesJS :: "'a list \<Rightarrow> 'a \<Rightarrow> bool" where
  "includesJS xs x = (x \<in> set xs)"

fun indexOf :: "'a list \<Rightarrow> 'a \<Rightarrow> int" where
  "indexOf [] x = - 1"
| "indexOf (y # ys) x =
     (if y = x then 0 else (let i = indexOf ys x in if i = - 1 then - 1 else i + 1))"

text \<open>\<open>xs.splice(index, 1)\<close> for an index of the array: the element there is removed.\<close>

definition splice1 :: "'a list \<Rightarrow> int \<Rightarrow> 'a list" where
  "splice1 xs i = take (nat i) xs @ drop (nat i + 1) xs"

definition addResponsibility :: "Role \<Rightarrow> string \<Rightarrow> Role" where
  "addResponsibility r responsibility =
     (if \<not> includesJS (responsibilities r) responsibility
      then r\<lparr>responsibilities := responsibilities r @ [responsibility]\<rparr>
      else r)"

definition removeResponsibility :: "Role \<Rightarrow> string \<Rightarrow> Role" where
  "removeResponsibility r responsibility =
     (let index = indexOf (responsibilities r) responsibility
      in if index > - 1
         then r\<lparr>responsibilities := splice1 (responsibilities r) index\<rparr>
         else r)"

section \<open>Employees (server/classes/Employee.ts)\<close>

text \<open>
  \<open>BaseEmployee\<close> is abstract; \<open>FullTimeEmployee\<close> and \<open>PartTimeEmployee\<close> extend it
  with their own private fields. The field \<open>id\<close> is written \<open>id_Employee\<close>.
\<close>

record BaseEmployee =
  id_Employee :: int
  firstName :: string
  lastName :: string
  email :: string
  role :: Role
  startDate :: Date

record FullTimeEmployee = BaseEmployee +
  annualSalary :: jsnum

record PartTimeEmployee = BaseEmployee +
  hourlyRate :: jsnum
  defaultHoursPerMonth :: jsnum

definition new_FullTimeEmployee ::
  "int \<Rightarrow> string \<Rightarrow> string \<Rightarrow> string \<Rightarrow> Role \<Rightarrow> Date \<Rightarrow> jsnum \<Rightarrow> FullTimeEmployee" where
  "new_FullTimeEmployee i fnm lnm em r sd sal =
     \<lparr>id_Employee = i, firstName = fnm, lastName = lnm, email = em, role = r,
      startDate = sd, annualSalary = sal\<rparr>"

text \<open>
  The last parameter of the part-time constructor has the default value 80: it is
  \<open>None\<close> when the caller leaves it out.
\<close>

definition new_PartTimeEmployee ::
  "int \<Rightarrow> string \<Rightarrow> string \<Rightarrow> string \<Rightarrow> Role \<Rightarrow> Date \<Rightarrow> jsnum \<Rightarrow> jsnum option
     \<Rightarrow> PartTimeEmployee" where
  "new_PartTimeEmployee i fnm lnm em r sd rate dh =
     \<lparr>id_Employee = i, firstName = fnm, lastName = lnm, email = em, role = r,
      startDate = sd, hourlyRate = rate,
      defaultHoursPerMonth = (case dh of None \<Rightarrow> Fin 80 | Some h \<Rightarrow> h)\<rparr>"

text \<open>A value of static type \<open>BaseEmployee\<close> is an instance of one of the two subclasses.\<close>

datatype Employee = FullTime FullTimeEmployee | PartTime PartTimeEmployee

fun calculateMonthlySalary :: "Employee \<Rightarrow> jsnum" where
  "calculateMonthlySalary (FullTime e) = js_div (annualSalary e) (Fin 12)"
| "calculateMonthlySalary (PartTime e) = js_mul (hourlyRate e) (defaultHoursPerMonth e)"

fun getEmployeeType :: "Employee \<Rightarrow> string" where
  "getEmployeeType (FullTime e) = ''full-time''"
| "getEmployeeType (PartTime e) = ''part-time''"

fun isEligibleForBenefits :: "Employee \<Rightarrow> bool" where
  "isEligibleForBenefits (FullTime e) = True"
| "isEligibleForBenefits (PartTime e) = False"

definition getAnnualSalary :: "FullTimeEmployee \<Rightarrow> jsnum" where
  "getAnnualSalary e = annualSalary e"

definition getHourlyRate :: "PartTimeEmployee \<Rightarrow> jsnum" where
  "getHourlyRate e = hourlyRate e"

definition calculatePay :: "PartTimeEmployee \<Rightarrow> jsnum \<Rightarrow> jsnum" where
  "calculatePay e hours = js_mul (hourlyRate e) hours"

text \<open>A thrown exception is the left summand of the result, with its message.\<close>

datatype error = Error string | TypeError

text \<open>
  \<open>EmployeeFactory.createEmployee\<close>: a \<open>switch\<close> on the type string; the part-time
  case calls the constructor without its last argument.
\<close>

definition createEmployee ::
  "int \<Rightarrow> string \<Rightarrow> string \<Rightarrow> string \<Rightarrow> string \<Rightarrow> Role \<Rightarrow> Date \<Rightarrow> jsnum
     \<Rightarrow> error + Employee" where
  "createEmployee i fnm lnm em type r sd salary =
     (if type = ''full-time'' then Inr (FullTime (new_FullTimeEmployee i fnm lnm em r sd salary))
      else if type = ''part-time''
        then Inr (PartTime (new_PartTimeEmployee i fnm lnm em r sd salary None))
      else Inl (Error (''Unknown employee type: '' @ type)))"

section \<open>Payslip calculators (server/classes/PayslipCalculator.ts)\<close>

record PayslipResult =
  basePay :: jsnum
  overtimePay :: jsnum
  grossPay :: jsnum
  deductions :: jsnum
  netPay :: jsnum
  hoursWorked :: jsnum
  overtimeHours :: jsnum

text \<open>
  The two concrete calculators, each holding the employee it was constructed with.
\<close>

datatype PayslipCalculator =
  FullTimePayslipCalculator FullTimeEmployee
| PartTimePayslipCalculator PartTimeEmployee

fun calculateBasePay :: "PayslipCalculator \<Rightarrow> jsnum \<Rightarrow> jsnum" where
  "calculateBasePay (FullTimePayslipCalculator e) hours =
     calculateMonthlySalary (FullTime e)"
| "calculateBasePay (PartTimePayslipCalculator e) hours = calculatePay e hours"

fun calculateOvertimePay :: "PayslipCalculator \<Rightarrow> jsnum \<Rightarrow> jsnum" where
  "calculateOvertimePay (FullTimePayslipCalculator e) overtime =
     (if js_le overtime (Fin 0) then Fin 0
      else (let rate = js_div (getAnnualSalary e) (js_mul (Fin 52) (Fin 40))
            in js_mul (js_mul overtime rate) (Fin (3 / 2))))"
| "calculateOvertimePay (PartTimePayslipCalculator e) overtime =
     (if js_le overtime (Fin 0) then Fin 0
      else js_mul (js_mul overtime (getHourlyRate e)) (Fin (3 / 2)))"

text \<open>
  The template method. Its parameters \<open>overtimeHours\<close> and \<open>deductions\<close> have the
  default value 0, taken when the argument is left out (\<open>None\<close>). The local constants
  of the source carry a prime here, their plain names being the fields of the result.
\<close>

definition calculatePayslip ::
  "PayslipCalculator \<Rightarrow> jsnum \<Rightarrow> jsnum option \<Rightarrow> jsnum option \<Rightarrow> PayslipResult" where
  "calculatePayslip c hoursWorked' overtimeHours_arg deductions_arg =
     (let overtimeHours' = (case overtimeHours_arg of None \<Rightarrow> Fin 0 | Some x \<Rightarrow> x);
          deductions' = (case deductions_arg of None \<Rightarrow> Fin 0 | Some x \<Rightarrow> x);
          basePay' = calculateBasePay c hoursWorked';
          overtimePay' = calculateOvertimePay c overtimeHours';
          grossPay' = js_add basePay' overtimePay';
          netPay' = js_sub grossPay' deductions'
      in \<lparr>basePay = basePay', overtimePay = overtimePay', grossPay = grossPay',
          deductions = deductions', netPay = netPay', hoursWorked = hoursWorked',
          overtimeHours = overtimeHours'\<rparr>)"

text \<open>
  \<open>PayslipCalculatorFactory.createCalculator\<close> tests \<open>instanceof\<close> for the two
  subclasses and throws otherwise; no third subclass exists, so that branch has no
  value to run on.
\<close>

fun createCalculator :: "Employee \<Rightarrow> error + PayslipCalculator" where
  "createCalculator (FullTime e) = Inr (FullTimePayslipCalculator e)"
| "createCalculator (PartTime e) = Inr (PartTimePayslipCalculator e)"

section \<open>Values of a request body, and \<open>parseFloat\<close>\<close>

text \<open>
  A value read from the JSON body of a request. \<open>JUndefined\<close> is what reading an
  absent property gives. An array or an object is carried as \<open>JObject\<close> with the text
  its \<open>toString()\<close> returns, which is all the routes below ask of one.
\<close>

datatype jsval =
  JUndefined | JNull | JBool bool | JNumber jsnum | JString string | JObject string

text \<open>
  Truthiness, as the operator \<open>!\<close> sees it: \<open>undefined\<close>, \<open>null\<close>, \<open>false\<close>, 0,
  \<open>NaN\<close> and the empty string are falsy, everything else is truthy.
\<close>

fun truthy :: "jsval \<Rightarrow> bool" where
  "truthy JUndefined = False"
| "truthy JNull = False"
| "truthy (JBool b) = b"
| "truthy (JNumber n) = (n \<noteq> NaN \<and> n \<noteq> Fin 0)"
| "truthy (JString s) = (s \<noteq> [])"
| "truthy (JObject t) = True"

text \<open>
  \<open>req.body\<close> is the object the JSON body parser of the server hands to a route
  (an empty object when the request carries none): a map from property names to
  values.
\<close>

type_synonym body = "string \<rightharpoonup> jsval"

definition property :: "body \<Rightarrow> string \<Rightarrow> jsval" where
  "property b k = (case b k of None \<Rightarrow> JUndefined | Some v \<Rightarrow> v)"

text \<open>A destructuring default \<open>{ k = d }\<close> applies when the property reads as \<open>undefined\<close>.\<close>

definition withDefault :: "jsval \<Rightarrow> jsval \<Rightarrow> jsval" where
  "withDefault v d = (if v = JUndefined then d else v)"

text \<open>
  \<open>parseFloat\<close> of ECMAScript: leading white space is skipped, then the longest prefix
  that is a decimal literal is read (an optional sign, then \<open>Infinity\<close>, or digits with
  an optional fraction and an optional exponent); the result is \<open>NaN\<close> when there is no
  such prefix. Strings are byte strings here, so only the ASCII white space is skipped,
  and the value read is exact.
\<close>

definition isWhiteSpace :: "char \<Rightarrow> bool" where
  "isWhiteSpace c = (c \<in> set [CHR '' '', CHR 0x09, CHR 0x0A, CHR 0x0B, CHR 0x0C, CHR 0x0D])"

definition isDigit :: "char \<Rightarrow> bool" where
  "isDigit c = (c \<in> set ''0123456789'')"

definition digitValue :: "char \<Rightarrow> nat" where
  "digitValue c = nat (indexOf ''0123456789'' c)"

definition digitsValue :: "string \<Rightarrow> nat" where
  "digitsValue ds = foldl (\<lambda>a c. 10 * a + digitValue c) 0 ds"

text \<open>An optional sign: whether it is a minus, and the rest of the text.\<close>

fun readSign :: "string \<Rightarrow> bool \<times> string" where
  "readSign [] = (False, [])"
| "readSign (c # cs) =
     (if c = CHR ''-'' then (True, cs) else if c = CHR ''+'' then (False, cs)
      else (False, c # cs))"

text \<open>The exponent part at the head of a text: \<open>e\<close> or \<open>E\<close>, a sign, digits; 0 if none.\<close>

fun readExponent :: "string \<Rightarrow> int" where
  "readExponent [] = 0"
| "readExponent (c # cs) =
     (if c = CHR ''e'' \<or> c = CHR ''E''
      then (let (neg, r) = readSign cs; ds = takeWhile isDigit r
            in if ds = [] then 0
               else if neg then - int (digitsValue ds) else int (digitsValue ds))
      else 0)"

definition scale10 :: "real \<Rightarrow> int \<Rightarrow> real" where
  "scale10 m e = (if 0 \<le> e then m * 10 ^ nat e else m / 10 ^ nat (- e))"

definition parseFloat :: "string \<Rightarrow> jsnum" where
  "parseFloat s =
     (let (neg, u) = readSign (dropWhile isWhiteSpace s)
      in if take 8 u = ''Infinity'' then (if neg then NegInf else PosInf)
         else
           (let ip = takeWhile isDigit u;
                r1 = dropWhile isDigit u;
                hasPoint = (r1 \<noteq> [] \<and> hd r1 = CHR ''.'');
                fp = (if hasPoint then takeWhile isDigit (tl r1) else []);
                r2 = (if hasPoint then dropWhile isDigit (tl r1) else r1)
            in if ip = [] \<and> fp = [] then NaN
               else
                 (let m = scale10 (real (digitsValue (ip @ fp))) (- int (length fp));
                      v = scale10 m (readExponent r2)
                  in Fin (if neg then - v else v))))"

text \<open>
  \<open>parseFloat(v.toString())\<close>. Reading a property of \<open>undefined\<close> or \<open>null\<close> throws a
  \<open>TypeError\<close>. The text of a number reads back as the same number (\<open>NaN\<close> and the
  infinities print as their names), so a number is returned as it is.
\<close>

fun parseFloat_toString :: "jsval \<Rightarrow> error + jsnum" where
  "parseFloat_toString JUndefined = Inl TypeError"
| "parseFloat_toString JNull = Inl TypeError"
| "parseFloat_toString (JBool b) = Inr (parseFloat (if b then ''true'' else ''false''))"
| "parseFloat_toString (JNumber n) = Inr n"
| "parseFloat_toString (JString s) = Inr (parseFloat s)"
| "parseFloat_toString (JObject t) = Inr (parseFloat t)"

section \<open>Rows and the in-memory storage (shared/schema.ts, server/storage.ts)\<close>

text \<open>
  The row types \<open>Role\<close> and \<open>Employee\<close> of the schema have the field names of the
  classes; their fields carry the prefix \<open>r_\<close> and \<open>e_\<close> here, and those of the
  validated insert data the prefix \<open>i_\<close>. A decimal column is a string. A \<open>phone\<close> or
  \<open>status\<close> that is \<open>null\<close> or \<open>undefined\<close> is \<open>None\<close>.
\<close>

record RoleRow =
  r_id :: int
  r_title :: string
  r_description :: string
  r_department :: string
  r_level :: int
  r_minSalary :: string
  r_maxSalary :: string
  r_responsibilities :: "string list"

record EmployeeRow =
  e_id :: int
  e_firstName :: string
  e_lastName :: string
  e_email :: string
  e_phone :: "string option"
  e_type :: string
  e_department :: string
  e_roleId :: int
  e_salary :: string
  e_startDate :: Date
  e_status :: string
  e_createdAt :: Date

record EmployeeWithRole = EmployeeRow +
  e_role :: RoleRow

record InsertEmployee =
  i_firstName :: string
  i_lastName :: string
  i_email :: string
  i_phone :: "string option"
  i_type :: string
  i_department :: string
  i_roleId :: int
  i_salary :: string
  i_startDate :: Date
  i_status :: "string option"

text \<open>
  \<open>MemStorage\<close>: each \<open>Map\<close> is the list of its entries in insertion order. The map
  of payslips and its counter are left out: the routes below neither read nor write them.
\<close>

record MemStorage =
  roles :: "(int \<times> RoleRow) list"
  employees :: "(int \<times> EmployeeRow) list"
  currentRoleId :: int
  currentEmployeeId :: int

definition storage_getRole :: "MemStorage \<Rightarrow> int \<Rightarrow> RoleRow option" where
  "storage_getRole st i = map_of (roles st) i"

definition storage_getEmployee :: "MemStorage \<Rightarrow> int \<Rightarrow> EmployeeWithRole option" where
  "storage_getEmployee st i =
     (case map_of (employees st) i of
        None \<Rightarrow> None
      | Some employee \<Rightarrow>
          (case map_of (roles st) (e_roleId employee) of
             None \<Rightarrow> None
           | Some r \<Rightarrow> Some (EmployeeRow.extend employee (EmployeeWithRole.fields r))))"

definition storage_getEmployeeByEmail :: "MemStorage \<Rightarrow> string \<Rightarrow> EmployeeRow option" where
  "storage_getEmployeeByEmail st em =
     find (\<lambda>emp. e_email emp = em) (map snd (employees st))"

text \<open>\<open>x || d\<close> on an optional string: \<open>d\<close> when it is missing or empty.\<close>

definition orElse :: "string option \<Rightarrow> string \<Rightarrow> string" where
  "orElse x d = (case x of None \<Rightarrow> d | Some s \<Rightarrow> if s = [] then d else s)"

definition orNull :: "string option \<Rightarrow> string option" where
  "orNull x = (case x of None \<Rightarrow> None | Some s \<Rightarrow> if s = [] then None else Some s)"

text \<open>\<open>createEmployee\<close> of the storage; \<open>now\<close> is the value of \<open>new Date()\<close>.\<close>

definition storage_createEmployee ::
  "MemStorage \<Rightarrow> Date \<Rightarrow> InsertEmployee \<Rightarrow> EmployeeRow \<times> MemStorage" where
  "storage_createEmployee st now ins =
     (let i = currentEmployeeId st;
          employee =
            \<lparr>e_id = i, e_firstName = i_firstName ins, e_lastName = i_lastName ins,
             e_email = i_email ins, e_phone = orNull (i_phone ins), e_type = i_type ins,
             e_department = i_department ins, e_roleId = i_roleId ins,
             e_salary = i_salary ins, e_startDate = i_startDate ins,
             e_status = orElse (i_status ins) ''active'', e_createdAt = now\<rparr>
      in (employee,
          st\<lparr>currentEmployeeId := i + 1,
             employees := AList.update i employee (employees st)\<rparr>))"

text \<open>
  \<open>Map.get\<close> with a value of the request as key: the keys of the map are the integers
  the counter has handed out, and only a number equal to one of them finds an entry.
\<close>

fun mapKey :: "jsval \<Rightarrow> int option" where
  "mapKey (JNumber (Fin x)) = (if x = of_int \<lfloor>x\<rfloor> then Some \<lfloor>x\<rfloor> else None)"
| "mapKey v = None"

section \<open>Routes (server/routes.ts)\<close>

datatype resbody =
  Message string
| InvalidData string "string list"
| EmployeeBody EmployeeRow
| PayslipBody PayslipResult

record Response =
  status :: nat
  json :: resbody

text \<open>
  Both routes build the \<open>Role\<close> object from a row in the same way:
  \<open>new Role(role.id, role.title, role.description, role.department, role.level,
  parseFloat(role.minSalary), parseFloat(role.maxSalary), role.responsibilities)\<close>.
\<close>

definition roleObjOf :: "RoleRow \<Rightarrow> Role" where
  "roleObjOf row =
     new_Role (r_id row) (r_title row) (r_description row) (r_department row) (r_level row)
       (parseFloat (r_minSalary row)) (parseFloat (r_maxSalary row)) (r_responsibilities row)"

text \<open>
  \<open>POST /api/employees\<close>. The argument \<open>validation\<close> is the result of
  \<open>insertEmployeeSchema.safeParse(req.body)\<close>: the issues found, or the parsed data.
  The handler returns the response and the storage it leaves. Nothing in its \<open>try\<close>
  block throws on this storage, so its \<open>catch\<close> has no case here.
\<close>

definition post_employees ::
  "MemStorage \<Rightarrow> Date \<Rightarrow> string list + InsertEmployee \<Rightarrow> Response \<times> MemStorage" where
  "post_employees st now validation =
     (case validation of
        Inl errors \<Rightarrow>
          (\<lparr>status = 400, json = InvalidData ''Invalid employee data'' errors\<rparr>, st)
      | Inr d \<Rightarrow>
          (case storage_getEmployeeByEmail st (i_email d) of
             Some existingEmployee \<Rightarrow>
               (\<lparr>status = 400, json = Message ''Employee with this email already exists''\<rparr>,
                st)
           | None \<Rightarrow>
               (case storage_getRole st (i_roleId d) of
                  None \<Rightarrow> (\<lparr>status = 400, json = Message ''Invalid role ID''\<rparr>, st)
                | Some r \<Rightarrow>
                    (if \<not> isSalaryInRange (roleObjOf r) (parseFloat (i_salary d))
                     then
                       (\<lparr>status = 400,
                         json = Message (''Salary must be between '' @ r_minSalary r
                                  @ '' and '' @ r_maxSalary r @ '' for this role'')\<rparr>,
                        st)
                     else
                       (let (employee, st') = storage_createEmployee st now d
                        in (\<lparr>status = 201, json = EmployeeBody employee\<rparr>, st'))))))"

text \<open>
  \<open>POST /api/payslips/calculate\<close>. The handler returns the calls it has made to its
  collaborators, in order, and the response; it does not write to the storage. An
  exception thrown in the \<open>try\<close> block is answered with status 500.
\<close>

datatype call =
  StorageGetEmployee jsval
| FactoryCreateEmployee string
| FactoryCreateCalculator
| CalculatePayslip jsnum jsnum jsnum

definition failed500 :: Response where
  "failed500 = \<lparr>status = 500, json = Message ''Failed to calculate payslip''\<rparr>"

definition post_payslips_calculate :: "MemStorage \<Rightarrow> body \<Rightarrow> call list \<times> Response" where
  "post_payslips_calculate st b =
     (let employeeId = property b ''employeeId'';
          hoursWorked' = property b ''hoursWorked'';
          overtimeHours' = withDefault (property b ''overtimeHours'') (JNumber (Fin 0));
          deductions' = withDefault (property b ''deductions'') (JNumber (Fin 0))
      in if \<not> truthy employeeId \<or> \<not> truthy hoursWorked'
         then ([], \<lparr>status = 400,
                    json = Message ''Employee ID and hours worked are required''\<rparr>)
         else
           (let t1 = [StorageGetEmployee employeeId]
            in case (case mapKey employeeId of None \<Rightarrow> None
                     | Some i \<Rightarrow> storage_getEmployee st i) of
                 None \<Rightarrow> (t1, \<lparr>status = 404, json = Message ''Employee not found''\<rparr>)
               | Some employeeWithRole \<Rightarrow>
                   (let roleObj = roleObjOf (e_role employeeWithRole);
                        t2 = t1 @ [FactoryCreateEmployee (e_type employeeWithRole)]
                    in case createEmployee (e_id employeeWithRole)
                              (e_firstName employeeWithRole) (e_lastName employeeWithRole)
                              (e_email employeeWithRole) (e_type employeeWithRole) roleObj
                              (e_startDate employeeWithRole)
                              (parseFloat (e_salary employeeWithRole)) of
                         Inl err \<Rightarrow> (t2, failed500)
                       | Inr employee \<Rightarrow>
                           (let t3 = t2 @ [FactoryCreateCalculator]
                            in case createCalculator employee of
                                 Inl err \<Rightarrow> (t3, failed500)
                               | Inr calculator \<Rightarrow>
                                   (case parseFloat_toString hoursWorked' of
                                      Inl err \<Rightarrow> (t3, failed500)
                                    | Inr h \<Rightarrow>
                                   (case parseFloat_toString overtimeHours' of
                                      Inl err \<Rightarrow> (t3, failed500)
                                    | Inr ot \<Rightarrow>
                                   (case parseFloat_toString deductions' of
                                      Inl err \<Rightarrow> (t3, failed500)
                                    | Inr d \<Rightarrow>
                                        (t3 @ [CalculatePayslip h ot d],
                                         \<lparr>status = 200,
                                          json = PayslipBody
                                            (calculatePayslip calculator h (Some ot)
                                               (Some d))\<rparr>))))))))"

text \<open>
  The storage after \<open>initializeSampleData\<close>, constructed at the time \<open>now\<close>: three
  roles and three employees.
\<close>

definition sampleRoles :: "RoleRow list" where
  "sampleRoles =
     [\<lparr>r_id = 1, r_title = ''Senior Developer'',
       r_description = ''Responsible for developing and maintaining software applications'',
       r_department = ''engineering'', r_level = 3, r_minSalary = ''75000'',
       r_maxSalary = ''95000'',
       r_responsibilities = [''Code development and review'', ''Technical documentation'',
         ''Mentoring junior developers'']\<rparr>,
      \<lparr>r_id = 2, r_title = ''Product Manager'',
       r_description = ''Oversees product development and strategy'',
       r_department = ''marketing'', r_level = 4, r_minSalary = ''85000'',
       r_maxSalary = ''110000'',
       r_responsibilities = [''Product roadmap planning'', ''Stakeholder management'',
         ''Market research'']\<rparr>,
      \<lparr>r_id = 3, r_title = ''UI Designer'',
       r_description = ''Creates user interface designs and prototypes'',
       r_department = ''engineering'', r_level = 2, r_minSalary = ''25'',
       r_maxSalary = ''45'',
       r_responsibilities = [''UI/UX design'', ''Prototyping'', ''Design systems'']\<rparr>]"

definition sampleEmployees :: "Date \<Rightarrow> EmployeeRow list" where
  "sampleEmployees now =
     [\<lparr>e_id = 1, e_firstName = ''Sarah'', e_lastName = ''Johnson'',
       e_email = ''sarah.johnson@company.com'', e_phone = Some ''+1-555-0123'',
       e_type = ''full-time'', e_department = ''engineering'', e_roleId = 1,
       e_salary = ''85000'', e_startDate = 1673740800000, e_status = ''active'',
       e_createdAt = now\<rparr>,
      \<lparr>e_id = 2, e_firstName = ''Mike'', e_lastName = ''Chen'',
       e_email = ''mike.chen@company.com'', e_phone = Some ''+1-555-0124'',
       e_type = ''full-time'', e_department = ''marketing'', e_roleId = 2,
       e_salary = ''95000'', e_startDate = 1660953600000, e_status = ''active'',
       e_createdAt = now\<rparr>,
      \<lparr>e_id = 3, e_firstName = ''Alex'', e_lastName = ''Rivera'',
       e_email = ''alex.rivera@company.com'', e_phone = Some ''+1-555-0125'',
       e_type = ''part-time'', e_department = ''engineering'', e_roleId = 3,
       e_salary = ''35'', e_startDate = 1686355200000, e_status = ''active'',
       e_createdAt = now\<rparr>]"

definition sampleStorage :: "Date \<Rightarrow> MemStorage" where
  "sampleStorage now =
     \<lparr>roles = map (\<lambda>r. (r_id r, r)) sampleRoles,
      employees = map (\<lambda>e. (e_id e, e)) (sampleEmployees now),
      currentRoleId = 4, currentEmployeeId = 4\<rparr>"

section \<open>Sample values\<close>

text \<open>
  The first and the third sample role of the storage and the employees holding them
  (\<open>initializeSampleData\<close> in server/storage.ts), as the objects the calculate route
  builds from their rows, and two more roles used as test values.
\<close>

definition seniorDeveloper :: Role where
  "seniorDeveloper =
     new_Role 1 ''Senior Developer''
       ''Responsible for developing and maintaining software applications''
       ''engineering'' 3 (Fin 75000) (Fin 95000)
       [''Code development and review'', ''Technical documentation'',
        ''Mentoring junior developers'']"

definition uiDesigner :: Role where
  "uiDesigner =
     new_Role 3 ''UI Designer'' ''Creates user interface designs and prototypes''
       ''engineering'' 2 (Fin 25) (Fin 45) [''UI/UX design'', ''Prototyping'', ''Design systems'']"

definition sarah :: FullTimeEmployee where
  "sarah =
     new_FullTimeEmployee 1 ''Sarah'' ''Johnson'' ''sarah.johnson@company.com''
       seniorDeveloper 1673740800000 (Fin 85000)"

definition alex :: PartTimeEmployee where
  "alex =
     new_PartTimeEmployee 3 ''Alex'' ''Rivera'' ''alex.rivera@company.com''
       uiDesigner 1686355200000 (Fin 35) None"

text \<open>A role whose band has no upper limit, and a role built from a list that repeats an entry.\<close>

definition uncappedRole :: Role where
  "uncappedRole = new_Role 4 ''Advisor'' ''External advisor'' ''board'' 5 (Fin 0) PosInf []"

definition repeatingRole :: Role where
  "repeatingRole =
     new_Role 5 ''Clerk'' ''Office clerk'' ''office'' 1 (Fin 20000) (Fin 30000)
       [''Filing'', ''Filing'']"

text \<open>
  Two sets of validated insert data asking for the first role at a salary of 60000, below
  its band: one with a new address, one with the address of an employee already stored.
\<close>

definition newApplicant :: InsertEmployee where
  "newApplicant =
     \<lparr>i_firstName = ''Kim'', i_lastName = ''Lee'', i_email = ''kim.lee@company.com'',
      i_phone = None, i_type = ''full-time'', i_department = ''engineering'', i_roleId = 1,
      i_salary = ''60000'', i_startDate = 0, i_status = None\<rparr>"

definition lateApplicant :: InsertEmployee where
  "lateApplicant =
     \<lparr>i_firstName = ''Sara'', i_lastName = ''Jones'',
      i_email = ''sarah.johnson@company.com'', i_phone = None, i_type = ''full-time'',
      i_department = ''engineering'', i_roleId = 1, i_salary = ''60000'', i_startDate = 0,
      i_status = None\<rparr>"

text \<open>
  Three request bodies for the first sample employee: \<open>hoursWorked\<close> as the number
  0, no \<open>employeeId\<close> at all, and \<open>hoursWorked\<close> as the string \<open>0\<close>.
\<close>

definition numberZeroBody :: body where
  "numberZeroBody = [''employeeId'' \<mapsto> JNumber (Fin 1), ''hoursWorked'' \<mapsto> JNumber (Fin 0)]"

definition missingIdBody :: body where
  "missingIdBody = [''hoursWorked'' \<mapsto> JNumber (Fin 160)]"

definition zeroHoursBody :: body where
  "zeroHoursBody = [''employeeId'' \<mapsto> JNumber (Fin 1), ''hoursWorked'' \<mapsto> JString ''0'']"

section \<open>Lists: \<open>indexOf\<close> and \<open>splice\<close>\<close>

lemma indexOf_ge: "- 1 \<le> indexOf xs x"
  by (induction xs) (auto simp: Let_def)

lemma indexOf_absent: "(indexOf xs x = - 1) = (x \<notin> set xs)"
proof (induction xs)
  case Nil
  show ?case by simp
next
  case (Cons y ys)
  have "- 1 \<le> indexOf ys x" by (rule indexOf_ge)
  with Cons show ?case by (auto simp: Let_def)
qed

lemma splice1_indexOf: "x \<in> set xs \<Longrightarrow> splice1 xs (indexOf xs x) = remove1 x xs"
proof (induction xs)
  case Nil
  then show ?case by simp
next
  case (Cons y ys)
  show ?case
  proof (cases "y = x")
    case True
    then show ?thesis by (simp add: splice1_def)
  next
    case False
    with Cons.prems have mem: "x \<in> set ys" by simp
    then have ne: "indexOf ys x \<noteq> - 1" by (simp add: indexOf_absent)
    have ge: "- 1 \<le> indexOf ys x" by (rule indexOf_ge)
    from ne ge have pos: "0 \<le> indexOf ys x" by arith
    then have "nat (indexOf ys x + 1) = Suc (nat (indexOf ys x))" by arith
    with False ne Cons.IH [OF mem] show ?thesis
      by (simp add: splice1_def Let_def)
  qed
qed

lemma removeResponsibility_remove1:
  "responsibilities (removeResponsibility r t) = remove1 t (responsibilities r)"
proof (cases "t \<in> set (responsibilities r)")
  case True
  then have "indexOf (responsibilities r) t \<noteq> - 1" by (simp add: indexOf_absent)
  moreover have "- 1 \<le> indexOf (responsibilities r) t" by (rule indexOf_ge)
  ultimately have "indexOf (responsibilities r) t > - 1" by arith
  with True show ?thesis
    by (simp add: removeResponsibility_def Let_def splice1_indexOf)
next
  case False
  then have "indexOf (responsibilities r) t = - 1" by (simp add: indexOf_absent)
  with False show ?thesis
    by (simp add: removeResponsibility_def Let_def remove1_idem)
qed

section \<open>Comparisons of numbers\<close>

lemma js_le_refl_ends: "js_le x y \<Longrightarrow> js_le x x \<and> js_le y y"
  by (cases x; cases y) simp_all

lemma js_lt_not_le: "js_lt x y \<Longrightarrow> \<not> js_le y x"
  by (cases x; cases y) simp_all

section \<open>The pay formulas\<close>

text \<open>
  Claim C1. For a full-time calculator the base pay is \<open>annualSalary / 12\<close> whatever
  \<open>hoursWorked\<close> is (two calls that differ only in the hours have the same base pay);
  the overtime pay is 0 when \<open>overtimeHours <= 0\<close>, and otherwise
  \<open>overtimeHours * (annualSalary / (52 * 40)) * 1.5\<close>, multiplied in the order of the
  source. A call that leaves \<open>overtimeHours\<close> out takes the default 0 and pays no
  overtime.
\<close>

theorem fulltime_pay_formulas:
  "basePay (calculatePayslip (FullTimePayslipCalculator e) h ot d)
     = js_div (annualSalary e) (Fin 12)
   \<and> basePay (calculatePayslip (FullTimePayslipCalculator e) h ot d)
     = basePay (calculatePayslip (FullTimePayslipCalculator e) h' ot d)
   \<and> overtimePay (calculatePayslip (FullTimePayslipCalculator e) h (Some x) d)
     = (if js_le x (Fin 0) then Fin 0
        else js_mul (js_mul x (js_div (annualSalary e) (js_mul (Fin 52) (Fin 40))))
               (Fin (3 / 2)))
   \<and> overtimePay (calculatePayslip (FullTimePayslipCalculator e) h None d) = Fin 0"
  by (simp add: calculatePayslip_def getAnnualSalary_def Let_def)

text \<open>
  The example of the specification: an annual salary of 96000 gives a base pay of 8000
  at zero hours, and ten overtime hours give 9000 / 13 (about 692.31).
\<close>

lemma fulltime_example:
  "calculatePayslip (FullTimePayslipCalculator (sarah\<lparr>annualSalary := Fin 96000\<rparr>))
     (Fin 0) (Some (Fin 10)) (Some (Fin 0))
   = \<lparr>basePay = Fin 8000, overtimePay = Fin (9000 / 13), grossPay = Fin (113000 / 13),
      deductions = Fin 0, netPay = Fin (113000 / 13), hoursWorked = Fin 0,
      overtimeHours = Fin 10\<rparr>"
  by (simp add: calculatePayslip_def getAnnualSalary_def Let_def js_sub_def sarah_def
      new_FullTimeEmployee_def)

text \<open>
  Claim C2. For a part-time calculator the base pay is \<open>hourlyRate * hoursWorked\<close>;
  the overtime pay is 0 when \<open>overtimeHours <= 0\<close> (at 0, at a negative number, at
  \<open>-Infinity\<close>, and when the argument is left out), and otherwise
  \<open>overtimeHours * hourlyRate * 1.5\<close>.
\<close>

theorem parttime_pay_formulas:
  "basePay (calculatePayslip (PartTimePayslipCalculator e) h ot d) = js_mul (hourlyRate e) h
   \<and> overtimePay (calculatePayslip (PartTimePayslipCalculator e) h (Some x) d)
     = (if js_le x (Fin 0) then Fin 0 else js_mul (js_mul x (hourlyRate e)) (Fin (3 / 2)))
   \<and> overtimePay (calculatePayslip (PartTimePayslipCalculator e) h None d) = Fin 0
   \<and> overtimePay (calculatePayslip (PartTimePayslipCalculator e) h (Some (Fin 0)) d) = Fin 0
   \<and> overtimePay (calculatePayslip (PartTimePayslipCalculator e) h (Some (Fin (- 3))) d) = Fin 0
   \<and> overtimePay (calculatePayslip (PartTimePayslipCalculator e) h (Some NegInf) d) = Fin 0"
  by (simp add: calculatePayslip_def getHourlyRate_def calculatePay_def Let_def)

text \<open>
  The example of the specification: a rate of 25, 80 hours, 5 overtime hours and
  deductions of 50.
\<close>

lemma parttime_example:
  "calculatePayslip (PartTimePayslipCalculator (alex\<lparr>hourlyRate := Fin 25\<rparr>))
     (Fin 80) (Some (Fin 5)) (Some (Fin 50))
   = \<lparr>basePay = Fin 2000, overtimePay = Fin (375 / 2), grossPay = Fin (4375 / 2),
      deductions = Fin 50, netPay = Fin (4275 / 2), hoursWorked = Fin 80,
      overtimeHours = Fin 5\<rparr>"
  by (simp add: calculatePayslip_def getHourlyRate_def calculatePay_def Let_def js_sub_def
      alex_def new_PartTimeEmployee_def)

text \<open>
  Claim C3. In the result of every calculation, of either calculator and at all inputs,
  \<open>grossPay\<close> is \<open>basePay + overtimePay\<close> and \<open>netPay\<close> is \<open>grossPay - deductions\<close>;
  \<open>hoursWorked\<close>, \<open>overtimeHours\<close> and \<open>deductions\<close> are the arguments of the call,
  unchanged (and the default 0 where \<open>overtimeHours\<close> or \<open>deductions\<close> is left out).
\<close>

theorem payslip_result_invariant:
  "grossPay (calculatePayslip c h ot d)
     = js_add (basePay (calculatePayslip c h ot d)) (overtimePay (calculatePayslip c h ot d))
   \<and> netPay (calculatePayslip c h ot d)
     = js_sub (grossPay (calculatePayslip c h ot d)) (deductions (calculatePayslip c h ot d))
   \<and> hoursWorked (calculatePayslip c h ot d) = h
   \<and> overtimeHours (calculatePayslip c h (Some x) d) = x
   \<and> deductions (calculatePayslip c h ot (Some y)) = y
   \<and> overtimeHours (calculatePayslip c h None d) = Fin 0
   \<and> deductions (calculatePayslip c h ot None) = Fin 0"
  by (simp add: calculatePayslip_def Let_def)

section \<open>The result never fails\<close>

text \<open>
  Claim C9. For every employee the factory returns a calculator, and the template method
  has no failing branch: its result is a \<open>PayslipResult\<close> at all numbers. Nothing on
  the way inspects the sign of an input: the three inputs reach the result as they are,
  the net pay is computed from them by the same expressions, and a negative input gives
  negative figures, as for the part-time sample employee (rate 35) at -10 hours, -5
  overtime hours and deductions of -50.
\<close>

theorem calculation_never_fails:
  "(\<exists>c. createCalculator e = Inr c)
   \<and> hoursWorked (calculatePayslip c h (Some x) (Some y)) = h
   \<and> overtimeHours (calculatePayslip c h (Some x) (Some y)) = x
   \<and> deductions (calculatePayslip c h (Some x) (Some y)) = y
   \<and> netPay (calculatePayslip c h (Some x) (Some y))
       = js_sub (js_add (calculateBasePay c h) (calculateOvertimePay c x)) y
   \<and> calculatePayslip (PartTimePayslipCalculator alex) (Fin (- 10)) (Some (Fin (- 5)))
        (Some (Fin (- 50)))
       = \<lparr>basePay = Fin (- 350), overtimePay = Fin 0, grossPay = Fin (- 350),
          deductions = Fin (- 50), netPay = Fin (- 300), hoursWorked = Fin (- 10),
          overtimeHours = Fin (- 5)\<rparr>"
proof -
  have a: "\<exists>c. createCalculator e = Inr c" by (cases e) simp_all
  have b: "calculatePayslip (PartTimePayslipCalculator alex) (Fin (- 10)) (Some (Fin (- 5)))
        (Some (Fin (- 50)))
       = \<lparr>basePay = Fin (- 350), overtimePay = Fin 0, grossPay = Fin (- 350),
          deductions = Fin (- 50), netPay = Fin (- 300), hoursWorked = Fin (- 10),
          overtimeHours = Fin (- 5)\<rparr>"
    by (simp add: calculatePayslip_def calculatePay_def alex_def new_PartTimeEmployee_def
        js_sub_def Let_def)
  have c: "hoursWorked (calculatePayslip c h (Some x) (Some y)) = h
   \<and> overtimeHours (calculatePayslip c h (Some x) (Some y)) = x
   \<and> deductions (calculatePayslip c h (Some x) (Some y)) = y
   \<and> netPay (calculatePayslip c h (Some x) (Some y))
       = js_sub (js_add (calculateBasePay c h) (calculateOvertimePay c x)) y"
    by (simp add: calculatePayslip_def Let_def)
  from a b c show ?thesis by blast
qed

section \<open>Employees and their factory\<close>

text \<open>
  Claim C4. \<open>createEmployee\<close> with the type \<open>full-time\<close> returns a full-time employee
  whose annual salary is the salary argument; with \<open>part-time\<close> it returns a part-time
  employee whose hourly rate is that argument and whose default hours per month are 80;
  with any other type string it throws \<open>Unknown employee type: \<close> followed by the
  string, and returns no employee.
\<close>

theorem factory_by_kind:
  "(\<exists>e. createEmployee i f l em ''full-time'' r sd c = Inr (FullTime e) \<and> annualSalary e = c
        \<and> role e = r \<and> id_Employee e = i)
   \<and> (\<exists>e. createEmployee i f l em ''part-time'' r sd c = Inr (PartTime e) \<and> hourlyRate e = c
        \<and> defaultHoursPerMonth e = Fin 80 \<and> role e = r \<and> id_Employee e = i)
   \<and> (k \<noteq> ''full-time'' \<and> k \<noteq> ''part-time'' \<longrightarrow>
        createEmployee i f l em k r sd c = Inl (Error (''Unknown employee type: '' @ k)))"
  by (simp add: createEmployee_def new_FullTimeEmployee_def new_PartTimeEmployee_def)

theorem factory_by_kind_witness:
  "''contractor'' \<noteq> ''full-time'' \<and> ''contractor'' \<noteq> ''part-time''
   \<and> createEmployee 7 ''Kim'' ''Lee'' ''kim.lee@company.com'' ''contractor'' seniorDeveloper 0
        (Fin 80000) = Inl (Error ''Unknown employee type: contractor'')"
  using factory_by_kind [of 7 "''Kim''" "''Lee''" "''kim.lee@company.com''" seniorDeveloper 0
      "Fin 80000" "''contractor''"]
  by simp

text \<open>
  Claim C7. A full-time employee has the monthly salary \<open>annualSalary / 12\<close>, the type
  \<open>full-time\<close> and is eligible for benefits; a part-time employee has the monthly
  salary \<open>hourlyRate * defaultHoursPerMonth\<close>, the type \<open>part-time\<close> and is not
  eligible. The constructors store the salary or rate they are given, and the part-time
  constructor stores 80 hours per month unless it is given another number.
\<close>

theorem employee_variant_behaviour:
  "calculateMonthlySalary (FullTime (new_FullTimeEmployee i f l em r sd a)) = js_div a (Fin 12)
   \<and> annualSalary (new_FullTimeEmployee i f l em r sd a) = a
   \<and> calculateMonthlySalary (FullTime e) = js_div (annualSalary e) (Fin 12)
   \<and> getEmployeeType (FullTime e) = ''full-time''
   \<and> isEligibleForBenefits (FullTime e) = True
   \<and> hourlyRate (new_PartTimeEmployee i f l em r sd a dh) = a
   \<and> defaultHoursPerMonth (new_PartTimeEmployee i f l em r sd a None) = Fin 80
   \<and> defaultHoursPerMonth (new_PartTimeEmployee i f l em r sd a (Some m)) = m
   \<and> calculateMonthlySalary (PartTime p) = js_mul (hourlyRate p) (defaultHoursPerMonth p)
   \<and> getEmployeeType (PartTime p) = ''part-time''
   \<and> isEligibleForBenefits (PartTime p) = False"
  by (simp add: new_FullTimeEmployee_def new_PartTimeEmployee_def)

section \<open>The salary band of a role\<close>

text \<open>
  Claim C6, as the code has it. For every role with \<open>minSalary <= maxSalary\<close>,
  \<open>isSalaryInRange\<close> is true exactly at the candidates with
  \<open>minSalary <= candidate <= maxSalary\<close>: it is true at both bounds, and false at every
  candidate strictly below \<open>minSalary\<close> or strictly above \<open>maxSalary\<close>, so at
  \<open>minSalary - eps\<close> and \<open>maxSalary + eps\<close> whenever that number is really below or
  above the bound. The predicate is a function of the role and the candidate alone, with
  a boolean value at every argument (\<open>NaN\<close> included): it changes nothing and does not
  throw.
\<close>

theorem isSalaryInRange_band:
  assumes "js_le (minSalary r) (maxSalary r)"
  shows "isSalaryInRange r c = (js_le (minSalary r) c \<and> js_le c (maxSalary r))
     \<and> isSalaryInRange r (minSalary r)
     \<and> isSalaryInRange r (maxSalary r)
     \<and> (js_lt c (minSalary r) \<longrightarrow> \<not> isSalaryInRange r c)
     \<and> (js_lt (maxSalary r) c \<longrightarrow> \<not> isSalaryInRange r c)
     \<and> (js_lt (js_sub (minSalary r) eps) (minSalary r)
          \<longrightarrow> \<not> isSalaryInRange r (js_sub (minSalary r) eps))
     \<and> (js_lt (maxSalary r) (js_add (maxSalary r) eps)
          \<longrightarrow> \<not> isSalaryInRange r (js_add (maxSalary r) eps))"
  using assms js_le_refl_ends [OF assms] js_lt_not_le
  by (auto simp: isSalaryInRange_def js_ge_def)

theorem isSalaryInRange_band_witness:
  "js_le (minSalary seniorDeveloper) (maxSalary seniorDeveloper)
   \<and> isSalaryInRange seniorDeveloper (Fin 75000)
   \<and> isSalaryInRange seniorDeveloper (Fin 95000)
   \<and> isSalaryInRange seniorDeveloper (Fin 85000)
   \<and> js_lt (Fin 74999) (minSalary seniorDeveloper)
   \<and> \<not> isSalaryInRange seniorDeveloper (Fin 74999)
   \<and> js_lt (js_sub (minSalary seniorDeveloper) (Fin (1 / 100))) (minSalary seniorDeveloper)
   \<and> \<not> isSalaryInRange seniorDeveloper (js_sub (minSalary seniorDeveloper) (Fin (1 / 100)))
   \<and> js_lt (maxSalary seniorDeveloper) (js_add (maxSalary seniorDeveloper) (Fin (1 / 100)))
   \<and> \<not> isSalaryInRange seniorDeveloper (js_add (maxSalary seniorDeveloper) (Fin (1 / 100)))"
proof -
  have h: "js_le (minSalary seniorDeveloper) (maxSalary seniorDeveloper)"
    by (simp add: seniorDeveloper_def new_Role_def)
  have v: "minSalary seniorDeveloper = Fin 75000" "maxSalary seniorDeveloper = Fin 95000"
    by (simp_all add: seniorDeveloper_def new_Role_def)
  from isSalaryInRange_band [OF h, of "Fin 74999" "Fin (1 / 100)"]
    isSalaryInRange_band [OF h, of "Fin 85000" "Fin (1 / 100)"]
  show ?thesis by (simp add: v js_sub_def)
qed

text \<open>
  The claim as it was stated promises \<open>false\<close> at \<open>maxSalary + eps\<close> for every role and
  every \<open>eps > 0\<close>. A band without upper limit has \<open>maxSalary = Infinity\<close>, and
  \<open>Infinity + 1\<close> is \<open>Infinity\<close> again, which is in the band: the sum is not above the
  bound. (In binary64 a finite bound absorbs a small enough \<open>eps\<close> in the same way.)
\<close>

theorem isSalaryInRange_uncapped_counterexample:
  "js_le (minSalary uncappedRole) (maxSalary uncappedRole)
   \<and> js_lt (Fin 0) (Fin 1)
   \<and> isSalaryInRange uncappedRole (js_add (maxSalary uncappedRole) (Fin 1))"
  by (simp add: uncappedRole_def new_Role_def isSalaryInRange_def js_ge_def)

section \<open>The responsibilities of a role\<close>

text \<open>
  Claim C8, as the code has it. The constructor stores the list it is given, as it is.
  If the list of a role has no two equal entries, then it has none after
  \<open>addResponsibility\<close> and none after \<open>removeResponsibility\<close>. \<open>addResponsibility\<close>
  appends the text when no entry equals it (character by character) and otherwise
  leaves the role as it is; \<open>removeResponsibility\<close> removes the first entry equal to
  the text and leaves the role as it is when there is none.
\<close>

theorem responsibilities_distinct_preserved:
  "(distinct (responsibilities r) \<longrightarrow>
      distinct (responsibilities (addResponsibility r t))
      \<and> distinct (responsibilities (removeResponsibility r t)))
   \<and> responsibilities (addResponsibility r t)
       = (if t \<in> set (responsibilities r) then responsibilities r
          else responsibilities r @ [t])
   \<and> responsibilities (removeResponsibility r t) = remove1 t (responsibilities r)
   \<and> (if t \<in> set (responsibilities r) then addResponsibility r t = r
       else removeResponsibility r t = r)
   \<and> responsibilities (new_Role i ti de dep l mn mx rs) = rs"
proof -
  have a: "responsibilities (addResponsibility r t)
         = (if t \<in> set (responsibilities r) then responsibilities r
            else responsibilities r @ [t])"
    by (simp add: addResponsibility_def includesJS_def)
  have b: "responsibilities (removeResponsibility r t) = remove1 t (responsibilities r)"
    by (rule removeResponsibility_remove1)
  have c: "distinct (responsibilities (addResponsibility r t))"
    if "distinct (responsibilities r)"
    using that by (simp add: a)
  have d: "distinct (responsibilities (removeResponsibility r t))"
    if "distinct (responsibilities r)"
    using that by (simp add: b)
  have e: "addResponsibility r t = r" if "t \<in> set (responsibilities r)"
    using that by (simp add: addResponsibility_def includesJS_def)
  have f: "removeResponsibility r t = r" if "t \<notin> set (responsibilities r)"
  proof -
    from that have "indexOf (responsibilities r) t = - 1" by (simp add: indexOf_absent)
    then show ?thesis by (simp add: removeResponsibility_def Let_def)
  qed
  have g: "responsibilities (new_Role i ti de dep l mn mx rs) = rs"
    by (simp add: new_Role_def)
  from a b c d e f g show ?thesis by simp
qed

theorem responsibilities_distinct_preserved_witness:
  "distinct (responsibilities uiDesigner)
   \<and> responsibilities (addResponsibility uiDesigner ''prototyping'')
       = [''UI/UX design'', ''Prototyping'', ''Design systems'', ''prototyping'']
   \<and> distinct (responsibilities (addResponsibility uiDesigner ''prototyping''))
   \<and> addResponsibility uiDesigner ''Prototyping'' = uiDesigner
   \<and> responsibilities (removeResponsibility uiDesigner ''Prototyping'')
       = [''UI/UX design'', ''Design systems'']
   \<and> distinct (responsibilities (removeResponsibility uiDesigner ''Prototyping''))
   \<and> removeResponsibility uiDesigner ''prototyping'' = uiDesigner"
proof -
  have v: "responsibilities uiDesigner = [''UI/UX design'', ''Prototyping'', ''Design systems'']"
    by (simp add: uiDesigner_def new_Role_def)
  from responsibilities_distinct_preserved [of uiDesigner "''prototyping''"]
    responsibilities_distinct_preserved [of uiDesigner "''Prototyping''"]
  show ?thesis by (simp add: v)
qed

text \<open>
  The claim as it was stated has the invariant established at construction. The
  constructor does not look at the list: a role built from a list that names
  \<open>Filing\<close> twice holds it twice, and removing \<open>Filing\<close> once leaves one.
\<close>

theorem responsibilities_repeated_counterexample:
  "\<not> distinct (responsibilities repeatingRole)
   \<and> responsibilities repeatingRole = [''Filing'', ''Filing'']
   \<and> responsibilities (removeResponsibility repeatingRole ''Filing'') = [''Filing'']"
  by (simp add: repeatingRole_def new_Role_def removeResponsibility_def splice1_def Let_def)

section \<open>The salary gate of \<open>POST /api/employees\<close>\<close>

lemma sample_role1: "storage_getRole (sampleStorage t) 1 = Some (hd sampleRoles)"
  by (simp add: storage_getRole_def sampleStorage_def sampleRoles_def)

lemmas parseFloat_defs =
  parseFloat_def isWhiteSpace_def isDigit_def digitsValue_def digitValue_def scale10_def Let_def

lemma parseFloat_60000: "parseFloat ''60000'' = Fin 60000"
  by (simp add: parseFloat_defs)

lemma parseFloat_85000: "parseFloat ''85000'' = Fin 85000"
  by (simp add: parseFloat_defs)

lemma parseFloat_0: "parseFloat ''0'' = Fin 0"
  by (simp add: parseFloat_defs)

lemma roleObjOf_role1: "roleObjOf (hd sampleRoles) = seniorDeveloper"
  by (simp add: roleObjOf_def sampleRoles_def seniorDeveloper_def parseFloat_defs)

lemma salary_60000_below_band:
  "\<not> isSalaryInRange (roleObjOf (hd sampleRoles)) (parseFloat ''60000'')"
  by (simp add: roleObjOf_role1 parseFloat_60000 seniorDeveloper_def new_Role_def
      isSalaryInRange_def js_ge_def)

text \<open>
  Claim C5, as the code has it. Take validated data whose role exists and whose salary
  is not in the band of that role. Then the request is answered with status 400 and the
  storage is left as it was: no employee is stored. If moreover no stored employee has
  the address of the request, the message is \<open>Salary must be between\<close> the
  \<open>minSalary\<close> \<open>and\<close> the \<open>maxSalary\<close> of the role row \<open>for this role\<close>.
\<close>

theorem salary_gate:
  assumes "storage_getRole st (i_roleId d) = Some r"
    and "\<not> isSalaryInRange (roleObjOf r) (parseFloat (i_salary d))"
  shows "snd (post_employees st now (Inr d)) = st
     \<and> status (fst (post_employees st now (Inr d))) = 400
     \<and> (storage_getEmployeeByEmail st (i_email d) = None \<longrightarrow>
          fst (post_employees st now (Inr d))
            = \<lparr>status = 400,
               json = Message (''Salary must be between '' @ r_minSalary r @ '' and ''
                        @ r_maxSalary r @ '' for this role'')\<rparr>)"
  using assms by (simp add: post_employees_def split: option.splits)

theorem salary_gate_witness:
  "storage_getRole (sampleStorage 0) (i_roleId newApplicant) = Some (hd sampleRoles)
   \<and> \<not> isSalaryInRange (roleObjOf (hd sampleRoles)) (parseFloat (i_salary newApplicant))
   \<and> storage_getEmployeeByEmail (sampleStorage 0) (i_email newApplicant) = None
   \<and> post_employees (sampleStorage 0) 5 (Inr newApplicant)
       = (\<lparr>status = 400,
           json = Message ''Salary must be between 75000 and 95000 for this role''\<rparr>,
          sampleStorage 0)"
proof -
  have h1: "storage_getRole (sampleStorage 0) (i_roleId newApplicant) = Some (hd sampleRoles)"
    by (simp add: newApplicant_def sample_role1)
  have h2: "\<not> isSalaryInRange (roleObjOf (hd sampleRoles)) (parseFloat (i_salary newApplicant))"
    by (simp add: newApplicant_def salary_60000_below_band)
  have h3: "storage_getEmployeeByEmail (sampleStorage 0) (i_email newApplicant) = None"
    by (simp add: storage_getEmployeeByEmail_def sampleStorage_def sampleEmployees_def
        newApplicant_def)
  have m: "r_minSalary (hd sampleRoles) = ''75000''" "r_maxSalary (hd sampleRoles) = ''95000''"
    by (simp_all add: sampleRoles_def)
  from salary_gate [OF h1 h2, of 5] h3 m
  have "post_employees (sampleStorage 0) 5 (Inr newApplicant)
       = (\<lparr>status = 400,
           json = Message ''Salary must be between 75000 and 95000 for this role''\<rparr>,
          sampleStorage 0)"
    by (simp add: prod_eq_iff)
  with h1 h2 h3 show ?thesis by blast
qed

text \<open>
  The claim as it was stated gives the band message for every request whose salary is
  outside the band. The address is checked first: the same salary sent with the address
  of a stored employee is answered with the message about the address.
\<close>

theorem salary_gate_counterexample:
  "storage_getRole (sampleStorage 0) (i_roleId lateApplicant) = Some (hd sampleRoles)
   \<and> \<not> isSalaryInRange (roleObjOf (hd sampleRoles)) (parseFloat (i_salary lateApplicant))
   \<and> fst (post_employees (sampleStorage 0) 5 (Inr lateApplicant))
       = \<lparr>status = 400, json = Message ''Employee with this email already exists''\<rparr>"
proof -
  have h1: "storage_getRole (sampleStorage 0) (i_roleId lateApplicant) = Some (hd sampleRoles)"
    by (simp add: lateApplicant_def sample_role1)
  have h2: "\<not> isSalaryInRange (roleObjOf (hd sampleRoles)) (parseFloat (i_salary lateApplicant))"
    by (simp add: lateApplicant_def salary_60000_below_band)
  have h3: "storage_getEmployeeByEmail (sampleStorage 0) (i_email lateApplicant) \<noteq> None"
    by (simp add: storage_getEmployeeByEmail_def sampleStorage_def sampleEmployees_def
        lateApplicant_def)
  then have "fst (post_employees (sampleStorage 0) 5 (Inr lateApplicant))
       = \<lparr>status = 400, json = Message ''Employee with this email already exists''\<rparr>"
    by (auto simp: post_employees_def)
  with h1 h2 show ?thesis by blast
qed

section \<open>The guard of \<open>POST /api/payslips/calculate\<close>\<close>

text \<open>
  Claim C10, as the code has it. When \<open>hoursWorked\<close> or \<open>employeeId\<close> of the body is
  falsy (the number 0, \<open>NaN\<close>, an absent property, \<open>null\<close>, \<open>false\<close> or the empty
  string), the handler answers with status 400 and the message
  \<open>Employee ID and hours worked are required\<close>, whatever the storage holds, and has
  called none of its collaborators: the calculator is not invoked. So a request whose
  \<open>hoursWorked\<close> is the number 0 gets no payslip.
\<close>

theorem calculate_rejects_falsy:
  assumes "\<not> truthy (property b ''hoursWorked'') \<or> \<not> truthy (property b ''employeeId'')"
  shows "post_payslips_calculate st b
       = ([], \<lparr>status = 400, json = Message ''Employee ID and hours worked are required''\<rparr>)
     \<and> \<not> truthy (JNumber (Fin 0)) \<and> \<not> truthy (JNumber NaN) \<and> \<not> truthy JUndefined
     \<and> \<not> truthy JNull \<and> \<not> truthy (JBool False) \<and> \<not> truthy (JString [])
     \<and> property Map.empty k = JUndefined"
  using assms by (auto simp: post_payslips_calculate_def Let_def property_def)

theorem calculate_rejects_falsy_witness:
  "\<not> truthy (property numberZeroBody ''hoursWorked'')
   \<and> post_payslips_calculate (sampleStorage 0) numberZeroBody
     = ([], \<lparr>status = 400, json = Message ''Employee ID and hours worked are required''\<rparr>)
   \<and> \<not> truthy (property missingIdBody ''employeeId'')
   \<and> post_payslips_calculate (sampleStorage 0) missingIdBody
     = ([], \<lparr>status = 400, json = Message ''Employee ID and hours worked are required''\<rparr>)"
proof -
  have h1: "\<not> truthy (property numberZeroBody ''hoursWorked'')"
    by (simp add: property_def numberZeroBody_def)
  have h2: "\<not> truthy (property missingIdBody ''employeeId'')"
    by (simp add: property_def missingIdBody_def)
  note t1 = calculate_rejects_falsy [OF disjI1 [OF h1], of "sampleStorage 0", THEN conjunct1]
  note t2 = calculate_rejects_falsy [OF disjI2 [OF h2], of "sampleStorage 0", THEN conjunct1]
  show ?thesis by (intro conjI h1 t1 h2 t2)
qed

lemma zeroHoursBody_properties:
  "property zeroHoursBody ''employeeId'' = JNumber (Fin 1)"
  "property zeroHoursBody ''hoursWorked'' = JString ''0''"
  "property zeroHoursBody ''overtimeHours'' = JUndefined"
  "property zeroHoursBody ''deductions'' = JUndefined"
  by (simp_all add: property_def zeroHoursBody_def)

lemma sample_employee1:
  "storage_getEmployee (sampleStorage t) 1
     = Some (EmployeeRow.extend (hd (sampleEmployees t)) (EmployeeWithRole.fields (hd sampleRoles)))"
  by (simp add: storage_getEmployee_def sampleStorage_def sampleEmployees_def sampleRoles_def)

lemma sample_employee1_fields:
  "e_id (EmployeeRow.extend (hd (sampleEmployees t)) x) = 1"
  "e_firstName (EmployeeRow.extend (hd (sampleEmployees t)) x) = ''Sarah''"
  "e_lastName (EmployeeRow.extend (hd (sampleEmployees t)) x) = ''Johnson''"
  "e_email (EmployeeRow.extend (hd (sampleEmployees t)) x) = ''sarah.johnson@company.com''"
  "e_type (EmployeeRow.extend (hd (sampleEmployees t)) x) = ''full-time''"
  "e_salary (EmployeeRow.extend (hd (sampleEmployees t)) x) = ''85000''"
  "e_startDate (EmployeeRow.extend (hd (sampleEmployees t)) x) = 1673740800000"
  "e_role (EmployeeRow.extend (hd (sampleEmployees t)) (EmployeeWithRole.fields r)) = r"
  by (simp_all add: sampleEmployees_def EmployeeRow.defs EmployeeWithRole.defs)

lemma sarah_from_factory:
  "createEmployee 1 ''Sarah'' ''Johnson'' ''sarah.johnson@company.com'' ''full-time''
     seniorDeveloper 1673740800000 (Fin 85000) = Inr (FullTime sarah)"
  by (simp add: createEmployee_def sarah_def)

lemma sarah_zero_hours:
  "calculatePayslip (FullTimePayslipCalculator sarah) (Fin 0) (Some (Fin 0)) (Some (Fin 0))
     = \<lparr>basePay = Fin (21250 / 3), overtimePay = Fin 0, grossPay = Fin (21250 / 3),
        deductions = Fin 0, netPay = Fin (21250 / 3), hoursWorked = Fin 0,
        overtimeHours = Fin 0\<rparr>"
  by (simp add: calculatePayslip_def sarah_def new_FullTimeEmployee_def js_sub_def Let_def)

text \<open>
  The claim as it was stated concludes that no zero-hours payslip can be had from the
  route. The guard tests truthiness, and the string \<open>0\<close> is truthy: sent as
  \<open>hoursWorked\<close> for the first sample employee (annual salary 85000) it passes the
  guard, is read as the number 0 by \<open>parseFloat\<close>, and the calculator is invoked with
  zero hours and answers with a base pay of 85000 / 12.
\<close>

theorem calculate_zero_hours_counterexample:
  "truthy (property zeroHoursBody ''hoursWorked'')
   \<and> post_payslips_calculate (sampleStorage 0) zeroHoursBody
     = ([StorageGetEmployee (JNumber (Fin 1)), FactoryCreateEmployee ''full-time'',
         FactoryCreateCalculator, CalculatePayslip (Fin 0) (Fin 0) (Fin 0)],
        \<lparr>status = 200,
         json = PayslipBody
           \<lparr>basePay = Fin (21250 / 3), overtimePay = Fin 0, grossPay = Fin (21250 / 3),
            deductions = Fin 0, netPay = Fin (21250 / 3), hoursWorked = Fin 0,
            overtimeHours = Fin 0\<rparr>\<rparr>)"
proof -
  have guard: "truthy (property zeroHoursBody ''hoursWorked'')"
    by (simp add: zeroHoursBody_properties)
  have run: "post_payslips_calculate (sampleStorage 0) zeroHoursBody
     = ([StorageGetEmployee (JNumber (Fin 1)), FactoryCreateEmployee ''full-time'',
         FactoryCreateCalculator, CalculatePayslip (Fin 0) (Fin 0) (Fin 0)],
        \<lparr>status = 200,
         json = PayslipBody
           (calculatePayslip (FullTimePayslipCalculator sarah) (Fin 0) (Some (Fin 0))
              (Some (Fin 0)))\<rparr>)"
    unfolding post_payslips_calculate_def
    by (simp add: zeroHoursBody_properties withDefault_def sample_employee1
        sample_employee1_fields roleObjOf_role1 parseFloat_85000 parseFloat_0
        sarah_from_factory Let_def)
  from guard run show ?thesis by (simp only: sarah_zero_hours simp_thms)
qed

end
